theory Spec2Isabelle
  imports Complex_Main
begin

section \<open>Values and exceptions\<close>

text \<open>
  The values that \<open>response.json()\<close> produces and that the session stores. An object
  is the decoded dictionary, as an association list with one pair for each key, in insertion order.
\<close>

datatype json =
    JNull
  | JBool bool
  | JInt int
  | JFloat real
  | JStr string
  | JList "json list"
  | JObj "(string \<times> json) list"

text \<open>
  The exceptions the code raises or lets through. \<open>ValueError\<close>, \<open>KeyError\<close>,
  \<open>TypeError\<close>, \<open>NameError\<close> and \<open>AttributeError\<close> are the interpreter's own, the
  last two with the name that is missing; \<open>OtherException\<close> stands for anything a
  collaborator outside this file may raise.
\<close>

datatype exn =
    ApiError string
  | ApiResponseError string int
  | ApiResponseErrorList string int json
  | ApiResponseDecodeError string
  | ApiCircuitBreaker
  | MacaroonRefreshRequired
  | AgreementNotSigned
  | MissingUsername
  | ValueError string
  | KeyError string
  | TypeError
  | NameError string
  | AttributeError string
  | OtherException string

type_synonym 'a result = "exn + 'a"

text \<open>Sequencing of calls that may raise: the first exception ends the computation.\<close>

definition and_then :: "'a result \<Rightarrow> ('a \<Rightarrow> 'b result) \<Rightarrow> 'b result" where
  "and_then m f = (case m of Inl e \<Rightarrow> Inl e | Inr x \<Rightarrow> f x)"

subsection \<open>Names and attributes\<close>

text \<open>
  The names bound at the top level of \<open>views.py\<close>: what it imports, what it assigns and the
  functions it defines. Of the exception classes it imports \<open>ApiCircuitBreaker\<close>,
  \<open>ApiError\<close> and \<open>ApiResponseError\<close> only.
\<close>

definition module_names :: "string list" where
  "module_names =
     [''os'', ''quote'', ''flask'', ''TeamsRequest'', ''TeamsResponse'', ''OpenID'',
      ''authentication'', ''ApiCircuitBreaker'', ''ApiError'', ''ApiResponseError'', ''csrf'',
      ''MacaroonRequest'', ''MacaroonResponse'', ''login'', ''LOGIN_URL'',
      ''LP_CANONICAL_TEAM'', ''open_id'', ''process_response'', ''get_authorization_header'',
      ''get_account'', ''get_agreement'', ''post_agreement'', ''post_username'',
      ''get_publisher_metrics'', ''post_register_name'', ''post_register_name_dispute'',
      ''get_snap_info'', ''get_snap_id'', ''snap_metadata'', ''snap_screenshots'',
      ''snap_revision_history'', ''snap_release_history'', ''post_snap_release'',
      ''post_close_channel'', ''login_blueprint'']"

text \<open>Looking a global name up when a line runs: a name that is not bound raises.\<close>

definition name_bound :: "string \<Rightarrow> unit result" where
  "name_bound name = (if name \<in> set module_names then Inr () else Inl (NameError name))"

text \<open>
  The exception that \<open>raise C(...)\<close> ends with, for the class named \<open>name\<close>: the class
  is looked up first, so an unbound name gives \<open>NameError\<close> in place of the exception.
\<close>

definition named_exn :: "string \<Rightarrow> exn \<Rightarrow> exn" where
  "named_exn name e = (case name_bound name of Inl ne \<Rightarrow> ne | Inr u \<Rightarrow> e)"

text \<open>
  \<open>login\<close> is the \<open>flask.Blueprint\<close> the file creates. These are the attributes of a
  blueprint; \<open>session\<close>, \<open>request\<close>, \<open>redirect\<close>, \<open>abort\<close> and \<open>url_for\<close>,
  which belong to the \<open>flask\<close> module, are not among them, and reading one of them from
  \<open>login\<close> raises \<open>AttributeError\<close>.
\<close>

definition blueprint_attributes :: "string list" where
  "blueprint_attributes =
     [''name'', ''import_name'', ''url_prefix'', ''subdomain'', ''static_folder'',
      ''static_url_path'', ''template_folder'', ''root_path'', ''route'', ''add_url_rule'',
      ''endpoint'', ''before_request'', ''after_request'', ''teardown_request'',
      ''before_app_request'', ''after_app_request'', ''teardown_app_request'',
      ''context_processor'', ''app_context_processor'', ''errorhandler'',
      ''app_errorhandler'', ''register_error_handler'', ''url_value_preprocessor'',
      ''url_defaults'', ''record'', ''record_once'', ''register'', ''send_static_file'',
      ''open_resource'']"

definition login_attr :: "string \<Rightarrow> unit result" where
  "login_attr name =
     (if name \<in> set blueprint_attributes then Inr () else Inl (AttributeError name))"

subsection \<open>The interpreter's operations on decoded values\<close>

text \<open>Truth value of an object in a condition (\<open>if data:\<close>, \<open>not body\<close>).\<close>

fun truthy :: "json \<Rightarrow> bool" where
  "truthy JNull = False"
| "truthy (JBool b) = b"
| "truthy (JInt i) = (i \<noteq> 0)"
| "truthy (JFloat r) = (r \<noteq> 0)"
| "truthy (JStr s) = (s \<noteq> [])"
| "truthy (JList xs) = (xs \<noteq> [])"
| "truthy (JObj kvs) = (kvs \<noteq> [])"

fun starts_with :: "string \<Rightarrow> string \<Rightarrow> bool" where
  "starts_with [] s = True"
| "starts_with (p # ps) [] = False"
| "starts_with (p # ps) (c # cs) = (p = c \<and> starts_with ps cs)"

fun substring_of :: "string \<Rightarrow> string \<Rightarrow> bool" where
  "substring_of p [] = (p = [])"
| "substring_of p (c # cs) = (starts_with p (c # cs) \<or> substring_of p cs)"

text \<open>
  \<open>key in value\<close> for a string \<open>key\<close>: a key of a dictionary, an element of a list, a
  substring of a string; a \<open>TypeError\<close> on anything that is not a container.
\<close>

fun str_in :: "string \<Rightarrow> json \<Rightarrow> bool result" where
  "str_in k (JObj kvs) = Inr (k \<in> fst ` set kvs)"
| "str_in k (JList xs) = Inr (JStr k \<in> set xs)"
| "str_in k (JStr s) = Inr (substring_of k s)"
| "str_in k v = Inl TypeError"

text \<open>\<open>value[key]\<close> for a string \<open>key\<close>.\<close>

fun getitem :: "json \<Rightarrow> string \<Rightarrow> json result" where
  "getitem (JObj kvs) k = (case map_of kvs k of None \<Rightarrow> Inl (KeyError k) | Some v \<Rightarrow> Inr v)"
| "getitem v k = Inl TypeError"

text \<open>The elements a \<open>for\<close> loop visits.\<close>

fun iterate :: "json \<Rightarrow> json list result" where
  "iterate (JList xs) = Inr xs"
| "iterate (JObj kvs) = Inr (map (\<lambda>kv. JStr (fst kv)) kvs)"
| "iterate (JStr s) = Inr (map (\<lambda>c. JStr [c]) s)"
| "iterate v = Inl TypeError"

section \<open>Responses of the backend\<close>

type_synonym headers = "string \<rightharpoonup> string"

text \<open>
  What the code reads of a response: \<open>status_code\<close>, \<open>ok\<close>, \<open>headers\<close> and the
  outcome of \<open>json()\<close>, which is the decoded body or a \<open>ValueError\<close> with its message.
\<close>

record response =
  status_code :: int
  ok :: bool
  resp_headers :: headers
  resp_json :: "string + json"

text \<open>
  The loop of \<open>process_response\<close> over the error list: the exception it raises, or
  \<open>None\<close> when it runs to its end.
\<close>

fun error_list_loop :: "json list \<Rightarrow> exn option" where
  "error_list_loop [] = None"
| "error_list_loop (error # rest) =
     (case getitem error ''code'' of
        Inl e \<Rightarrow> Some e
      | Inr code \<Rightarrow>
          if code = JStr ''user-not-ready'' then
            (case and_then (getitem error ''message'') (str_in ''has not signed agreement'') of
               Inl e \<Rightarrow> Some e
             | Inr True \<Rightarrow> Some (named_exn ''AgreementNotSigned'' AgreementNotSigned)
             | Inr False \<Rightarrow>
                 (case and_then (getitem error ''message'') (str_in ''missing store username'') of
                    Inl e \<Rightarrow> Some e
                  | Inr True \<Rightarrow> Some (named_exn ''MissingUsername'' MissingUsername)
                  | Inr False \<Rightarrow> error_list_loop rest))
          else error_list_loop rest)"

definition process_response :: "response \<Rightarrow> json result" where
  "process_response response =
     (case resp_json response of
        Inl decode_error \<Rightarrow>
          Inl (named_exn ''ApiResponseDecodeError''
                 (ApiResponseDecodeError (''JSON decoding failed: '' @ decode_error)))
      | Inr body \<Rightarrow>
          if \<not> ok response then
            (case str_in ''error_list'' body of
               Inl e \<Rightarrow> Inl e
             | Inr True \<Rightarrow>
                 and_then (getitem body ''error_list'') (\<lambda>error_list.
                 and_then (iterate error_list) (\<lambda>errors.
                   case error_list_loop errors of
                     Some e \<Rightarrow> Inl e
                   | None \<Rightarrow>
                       Inl (named_exn ''ApiResponseErrorList''
                              (ApiResponseErrorList ''The api returned a list of errors''
                                 (status_code response) error_list))))
             | Inr False \<Rightarrow>
                 if \<not> truthy body then
                   Inl (named_exn ''ApiResponseError''
                          (ApiResponseError ''Unknown error from api'' (status_code response)))
                 else Inr body)
          else Inr body)"

section \<open>The authenticated API client\<close>

text \<open>The keyword arguments of a call on \<open>api_session\<close>.\<close>

record upload =
  filename :: string
  stream :: string
  mimetype :: string

datatype files_arg =
    FileTuples "(string \<times> string \<times> string \<times> string) list"
  | InfoPart json

record request =
  req_method :: "string option"
  req_url :: string
  req_headers :: headers
  req_json :: "json option"
  req_data :: "json option"
  req_files :: "files_arg option"

type_synonym session = "string \<rightharpoonup> json"

text \<open>
  The collaborators of the file, each a parameter: the helpers of the imported
  \<open>authentication\<close> module, the process environment, the OpenID extension's next-URL,
  and what the operations of the client are given, the HTTP session \<open>api_session\<close> and
  the URL constants. A URL template is the function its \<open>format\<close> call computes.
  \<open>send\<close> is the transport: the response to a request, or the exception the call raises.
  \<open>bind_macaroons\<close> is \<open>authentication.get_authorization_header\<close>, which binds the
  discharge to the root and gives the value of the header. \<open>dashboard_get_account\<close> and
  \<open>get_snap_names_by_ownership\<close> are what the modules \<open>dashboard\<close> and \<open>logic\<close>
  would compute; the file binds neither module (see \<open>module_names\<close>).
\<close>

record env =
  getenv_LOGIN_URL :: "string option"
  request_macaroon :: "string result"
  get_caveat_id :: "string \<Rightarrow> string result"
  bind_macaroons :: "json \<Rightarrow> json \<Rightarrow> string result"
  is_macaroon_expired :: "headers \<Rightarrow> bool"
  send :: "request \<Rightarrow> response result"
  dashboard_get_account :: "session \<Rightarrow> json result"
  get_snap_names_by_ownership :: "json \<Rightarrow> (json \<times> json) result"
  get_next_url :: string
  ACCOUNT_URL :: string
  AGREEMENT_URL :: string
  SNAP_PUB_METRICS_URL :: string
  PUB_METRICS_QUERY_HEADERS :: headers
  REGISTER_NAME_URL :: string
  REGISTER_NAME_DISPUTE_URL :: string
  SNAP_INFO_URL :: "string \<Rightarrow> string"
  METADATA_QUERY_URL :: "string \<Rightarrow> string"
  SCREENSHOTS_QUERY_URL :: "string \<Rightarrow> string"
  REVISION_HISTORY_URL :: "string \<Rightarrow> string"
  SNAP_RELEASE_HISTORY_URL :: "string \<Rightarrow> int \<Rightarrow> string"
  SNAP_RELEASE :: string
  CLOSE_CHANNEL :: "string \<Rightarrow> string"

definition session_item :: "session \<Rightarrow> string \<Rightarrow> json result" where
  "session_item session k = (case session k of None \<Rightarrow> Inl (KeyError k) | Some v \<Rightarrow> Inr v)"

definition get_authorization_header :: "env \<Rightarrow> session \<Rightarrow> headers result" where
  "get_authorization_header env session =
     and_then (session_item session ''macaroon_root'') (\<lambda>root.
     and_then (session_item session ''macaroon_discharge'') (\<lambda>discharge.
     and_then (bind_macaroons env root discharge) (\<lambda>authorization.
       Inr [''Authorization'' \<mapsto> authorization])))"

definition plain_request :: "string \<Rightarrow> string \<Rightarrow> headers \<Rightarrow> json option \<Rightarrow> request" where
  "plain_request m u h j =
     \<lparr>req_method = Some m, req_url = u, req_headers = h, req_json = j,
      req_data = None, req_files = None\<rparr>"

text \<open>
  Every operation is written in two parts, as in the source: the request it builds and
  sends, then the check of the expiry header on the response before anything reads the
  body.
\<close>

definition get_account_request :: "env \<Rightarrow> session \<Rightarrow> request result" where
  "get_account_request env session =
     and_then (get_authorization_header env session) (\<lambda>headers.
       Inr (plain_request ''GET'' (ACCOUNT_URL env) headers None))"

definition get_account :: "env \<Rightarrow> session \<Rightarrow> json result" where
  "get_account env session =
     and_then (get_account_request env session) (\<lambda>req.
     and_then (send env req) (\<lambda>response.
       if is_macaroon_expired env (resp_headers response)
       then Inl (named_exn ''MacaroonRefreshRequired'' MacaroonRefreshRequired)
       else process_response response))"

definition get_agreement_request :: "env \<Rightarrow> session \<Rightarrow> request result" where
  "get_agreement_request env session =
     and_then (get_authorization_header env session) (\<lambda>headers.
       Inr (plain_request ''GET'' (AGREEMENT_URL env) headers None))"

definition get_agreement :: "env \<Rightarrow> session \<Rightarrow> json result" where
  "get_agreement env session =
     and_then (get_agreement_request env session) (\<lambda>req.
     and_then (send env req) (\<lambda>agreement_response.
       if is_macaroon_expired env (resp_headers agreement_response)
       then Inl (named_exn ''MacaroonRefreshRequired'' MacaroonRefreshRequired)
       else (case resp_json agreement_response of
               Inl decode_error \<Rightarrow> Inl (ValueError decode_error)
             | Inr body \<Rightarrow> Inr body)))"

definition post_agreement_request :: "env \<Rightarrow> session \<Rightarrow> bool \<Rightarrow> request result" where
  "post_agreement_request env session agreed =
     and_then (get_authorization_header env session) (\<lambda>headers.
       Inr (plain_request ''POST'' (AGREEMENT_URL env) headers
              (Some (JObj [(''latest_tos_accepted'', JBool agreed)]))))"

definition post_agreement :: "env \<Rightarrow> session \<Rightarrow> bool \<Rightarrow> json result" where
  "post_agreement env session agreed =
     and_then (post_agreement_request env session agreed) (\<lambda>req.
     and_then (send env req) (\<lambda>agreement_response.
       if is_macaroon_expired env (resp_headers agreement_response)
       then Inl (named_exn ''MacaroonRefreshRequired'' MacaroonRefreshRequired)
       else process_response agreement_response))"

definition post_username_request :: "env \<Rightarrow> session \<Rightarrow> string \<Rightarrow> request result" where
  "post_username_request env session username =
     and_then (get_authorization_header env session) (\<lambda>headers.
       Inr (plain_request ''PATCH'' (ACCOUNT_URL env) headers
              (Some (JObj [(''short_namespace'', JStr username)]))))"

definition post_username :: "env \<Rightarrow> session \<Rightarrow> string \<Rightarrow> json result" where
  "post_username env session username =
     and_then (post_username_request env session username) (\<lambda>req.
     and_then (send env req) (\<lambda>username_response.
       if is_macaroon_expired env (resp_headers username_response)
       then Inl (named_exn ''MacaroonRefreshRequired'' MacaroonRefreshRequired)
       else if status_code username_response = 204 then Inr (JObj [])
       else process_response username_response))"

definition get_publisher_metrics_request :: "env \<Rightarrow> session \<Rightarrow> json \<Rightarrow> request result" where
  "get_publisher_metrics_request env session json =
     and_then (get_authorization_header env session) (\<lambda>headers.
     and_then (case headers ''Authorization'' of
                 None \<Rightarrow> Inl (KeyError ''Authorization'') | Some a \<Rightarrow> Inr a) (\<lambda>auth_header.
       Inr (plain_request ''POST'' (SNAP_PUB_METRICS_URL env)
              ((PUB_METRICS_QUERY_HEADERS env)(''Authorization'' \<mapsto> auth_header))
              (Some json))))"

definition get_publisher_metrics :: "env \<Rightarrow> session \<Rightarrow> json \<Rightarrow> json result" where
  "get_publisher_metrics env session json =
     and_then (get_publisher_metrics_request env session json) (\<lambda>req.
     and_then (send env req) (\<lambda>metrics_response.
       if is_macaroon_expired env (resp_headers metrics_response)
       then Inl (named_exn ''MacaroonRefreshRequired'' MacaroonRefreshRequired)
       else process_response metrics_response))"

definition register_name_json :: "string \<Rightarrow> string option \<Rightarrow> bool \<Rightarrow> string option \<Rightarrow> json" where
  "register_name_json snap_name registrant_comment is_private store =
     JObj ([(''snap_name'', JStr snap_name)]
           @ (case registrant_comment of
                Some c \<Rightarrow> if c \<noteq> [] then [(''registrant_comment'', JStr c)] else []
              | None \<Rightarrow> [])
           @ (if is_private then [(''is_private'', JBool is_private)] else [])
           @ (case store of
                Some s \<Rightarrow> if s \<noteq> [] then [(''store'', JStr s)] else []
              | None \<Rightarrow> []))"

definition post_register_name_request ::
  "env \<Rightarrow> session \<Rightarrow> string \<Rightarrow> string option \<Rightarrow> bool \<Rightarrow> string option \<Rightarrow> request result" where
  "post_register_name_request env session snap_name registrant_comment is_private store =
     and_then (get_authorization_header env session) (\<lambda>headers.
       Inr (plain_request ''POST'' (REGISTER_NAME_URL env) headers
              (Some (register_name_json snap_name registrant_comment is_private store))))"

definition post_register_name ::
  "env \<Rightarrow> session \<Rightarrow> string \<Rightarrow> string option \<Rightarrow> bool \<Rightarrow> string option \<Rightarrow> json result" where
  "post_register_name env session snap_name registrant_comment is_private store =
     and_then (post_register_name_request env session snap_name registrant_comment
                 is_private store) (\<lambda>req.
     and_then (send env req) (\<lambda>response.
       if is_macaroon_expired env (resp_headers response)
       then Inl (named_exn ''MacaroonRefreshRequired'' MacaroonRefreshRequired)
       else process_response response))"

definition post_register_name_dispute_request ::
  "env \<Rightarrow> session \<Rightarrow> string \<Rightarrow> string \<Rightarrow> request result" where
  "post_register_name_dispute_request env session snap_name claim_comment =
     and_then (get_authorization_header env session) (\<lambda>headers.
       Inr (plain_request ''POST'' (REGISTER_NAME_DISPUTE_URL env) headers
              (Some (JObj [(''snap_name'', JStr snap_name), (''comment'', JStr claim_comment)]))))"

definition post_register_name_dispute ::
  "env \<Rightarrow> session \<Rightarrow> string \<Rightarrow> string \<Rightarrow> json result" where
  "post_register_name_dispute env session snap_name claim_comment =
     and_then (post_register_name_dispute_request env session snap_name claim_comment) (\<lambda>req.
     and_then (send env req) (\<lambda>response.
       if is_macaroon_expired env (resp_headers response)
       then Inl (named_exn ''MacaroonRefreshRequired'' MacaroonRefreshRequired)
       else process_response response))"

definition get_snap_info_request :: "env \<Rightarrow> string \<Rightarrow> session \<Rightarrow> request result" where
  "get_snap_info_request env snap_name session =
     and_then (get_authorization_header env session) (\<lambda>headers.
       Inr (plain_request ''GET'' (SNAP_INFO_URL env snap_name) headers None))"

definition get_snap_info :: "env \<Rightarrow> string \<Rightarrow> session \<Rightarrow> json result" where
  "get_snap_info env snap_name session =
     and_then (get_snap_info_request env snap_name session) (\<lambda>req.
     and_then (send env req) (\<lambda>response.
       if is_macaroon_expired env (resp_headers response)
       then Inl (named_exn ''MacaroonRefreshRequired'' MacaroonRefreshRequired)
       else process_response response))"

definition get_snap_id :: "env \<Rightarrow> string \<Rightarrow> session \<Rightarrow> json result" where
  "get_snap_id env snap_name session =
     and_then (get_snap_info env snap_name session) (\<lambda>snap_info.
       getitem snap_info ''snap_id'')"

definition snap_metadata_request :: "env \<Rightarrow> string \<Rightarrow> session \<Rightarrow> json option \<Rightarrow> request result" where
  "snap_metadata_request env snap_id session json =
     and_then (get_authorization_header env session) (\<lambda>headers.
       Inr \<lparr>req_method = (if json \<noteq> None then Some ''PUT'' else None),
            req_url = METADATA_QUERY_URL env snap_id, req_headers = headers,
            req_json = json, req_data = None, req_files = None\<rparr>)"

definition snap_metadata :: "env \<Rightarrow> string \<Rightarrow> session \<Rightarrow> json option \<Rightarrow> json result" where
  "snap_metadata env snap_id session json =
     and_then (snap_metadata_request env snap_id session json) (\<lambda>req.
     and_then (send env req) (\<lambda>metadata_response.
       if is_macaroon_expired env (resp_headers metadata_response)
       then Inl (named_exn ''MacaroonRefreshRequired'' MacaroonRefreshRequired)
       else process_response metadata_response))"

definition snap_screenshots_request ::
  "env \<Rightarrow> string \<Rightarrow> session \<Rightarrow> json option \<Rightarrow> upload list option \<Rightarrow> request result" where
  "snap_screenshots_request env snap_id session data files =
     and_then (get_authorization_header env session) (\<lambda>auth.
       let headers = auth(''Accept'' \<mapsto> ''application/json'');
           u = SCREENSHOTS_QUERY_URL env snap_id;
           get = \<lparr>req_method = Some ''GET'', req_url = u, req_headers = headers,
                  req_json = None, req_data = data, req_files = None\<rparr>
       in case data of
            None \<Rightarrow> Inr get
          | Some d \<Rightarrow>
              if truthy d then
                (case files of
                   Some (f # fs) \<Rightarrow>
                     Inr \<lparr>req_method = Some ''PUT'', req_url = u, req_headers = headers,
                          req_json = None, req_data = data,
                          req_files = Some (FileTuples
                            (map (\<lambda>f. (filename f, filename f, stream f, mimetype f))
                               (f # fs)))\<rparr>
                 | _ \<Rightarrow>
                     and_then (getitem d ''info'') (\<lambda>info.
                       Inr \<lparr>req_method = Some ''PUT'', req_url = u, req_headers = headers,
                            req_json = None, req_data = None,
                            req_files = Some (InfoPart info)\<rparr>))
              else Inr get)"

definition snap_screenshots ::
  "env \<Rightarrow> string \<Rightarrow> session \<Rightarrow> json option \<Rightarrow> upload list option \<Rightarrow> json result" where
  "snap_screenshots env snap_id session data files =
     and_then (snap_screenshots_request env snap_id session data files) (\<lambda>req.
     and_then (send env req) (\<lambda>screenshot_response.
       if is_macaroon_expired env (resp_headers screenshot_response)
       then Inl (named_exn ''MacaroonRefreshRequired'' MacaroonRefreshRequired)
       else process_response screenshot_response))"

definition snap_revision_history_request :: "env \<Rightarrow> session \<Rightarrow> string \<Rightarrow> request result" where
  "snap_revision_history_request env session snap_id =
     and_then (get_authorization_header env session) (\<lambda>headers.
       Inr (plain_request ''GET'' (REVISION_HISTORY_URL env snap_id) headers None))"

definition snap_revision_history :: "env \<Rightarrow> session \<Rightarrow> string \<Rightarrow> json result" where
  "snap_revision_history env session snap_id =
     and_then (snap_revision_history_request env session snap_id) (\<lambda>req.
     and_then (send env req) (\<lambda>response.
       if is_macaroon_expired env (resp_headers response)
       then Inl (named_exn ''MacaroonRefreshRequired'' MacaroonRefreshRequired)
       else process_response response))"

definition snap_release_history_request ::
  "env \<Rightarrow> session \<Rightarrow> string \<Rightarrow> int \<Rightarrow> request result" where
  "snap_release_history_request env session snap_name page =
     and_then (get_authorization_header env session) (\<lambda>headers.
       Inr (plain_request ''GET'' (SNAP_RELEASE_HISTORY_URL env snap_name page) headers None))"

definition snap_release_history :: "env \<Rightarrow> session \<Rightarrow> string \<Rightarrow> int \<Rightarrow> json result" where
  "snap_release_history env session snap_name page =
     and_then (snap_release_history_request env session snap_name page) (\<lambda>req.
     and_then (send env req) (\<lambda>response.
       if is_macaroon_expired env (resp_headers response)
       then Inl (named_exn ''MacaroonRefreshRequired'' MacaroonRefreshRequired)
       else process_response response))"

definition post_snap_release_request ::
  "env \<Rightarrow> session \<Rightarrow> string \<Rightarrow> json \<Rightarrow> request result" where
  "post_snap_release_request env session snap_name json =
     and_then (get_authorization_header env session) (\<lambda>headers.
       Inr (plain_request ''POST'' (SNAP_RELEASE env) headers (Some json)))"

definition post_snap_release :: "env \<Rightarrow> session \<Rightarrow> string \<Rightarrow> json \<Rightarrow> json result" where
  "post_snap_release env session snap_name json =
     and_then (post_snap_release_request env session snap_name json) (\<lambda>req.
     and_then (send env req) (\<lambda>response.
       if is_macaroon_expired env (resp_headers response)
       then Inl (named_exn ''MacaroonRefreshRequired'' MacaroonRefreshRequired)
       else process_response response))"

definition post_close_channel_request ::
  "env \<Rightarrow> session \<Rightarrow> string \<Rightarrow> json \<Rightarrow> request result" where
  "post_close_channel_request env session snap_id json =
     and_then (get_authorization_header env session) (\<lambda>headers.
       Inr (plain_request ''POST'' (CLOSE_CHANNEL env snap_id) headers (Some json)))"

definition post_close_channel :: "env \<Rightarrow> session \<Rightarrow> string \<Rightarrow> json \<Rightarrow> json result" where
  "post_close_channel env session snap_id json =
     and_then (post_close_channel_request env session snap_id json) (\<lambda>req.
     and_then (send env req) (\<lambda>response.
       if is_macaroon_expired env (resp_headers response)
       then Inl (named_exn ''MacaroonRefreshRequired'' MacaroonRefreshRequired)
       else process_response response))"

section \<open>The login views\<close>

text \<open>
  What a view hands back: a redirect, an abort with its status code and the exception whose
  text is its description, the hand-over to the identity provider by \<open>try_login\<close>
  with its arguments (identity URL, required and optional attributes, caveat id of the
  macaroon extension, teams queried), or an exception that no clause catches.
\<close>

datatype http_result =
    Redirect string
  | Abort int "exn option"
  | TryLogin string "string list" "string list" string "string list"
  | Raised exn

text \<open>
  The result of handling one request: the response, the session as the handler leaves it,
  and how many times the handler called \<open>authentication.request_macaroon\<close>.
\<close>

record outcome =
  result :: http_result
  session_after :: session
  macaroons_requested :: nat

definition LOGIN_URL :: "env \<Rightarrow> string" where
  "LOGIN_URL env =
     (case getenv_LOGIN_URL env of None \<Rightarrow> ''https://login.ubuntu.com'' | Some u \<Rightarrow> u)"

definition LP_CANONICAL_TEAM :: string where
  "LP_CANONICAL_TEAM = ''canonical''"

text \<open>
  Modelled from the spec: \<open>authentication.is_authenticated\<close> is not in the sources. The
  session is authenticated exactly when \<open>openid\<close> is present and non-empty.
\<close>

definition is_authenticated :: "session \<Rightarrow> bool" where
  "is_authenticated session =
     (case session ''openid'' of None \<Rightarrow> False | Some v \<Rightarrow> truthy v)"

text \<open>
  Modelled from the spec: \<open>authentication.empty_session\<close> is not in the sources. It
  clears all session fields.
\<close>

definition empty_session :: "session \<Rightarrow> session" where
  "empty_session session = Map.empty"

text \<open>
  The route of the logout view, which \<open>url_for(".logout")\<close> computes: the blueprint
  declares it as \<open>/logout\<close> and the application registers the blueprint with no prefix.
\<close>

definition url_for_logout :: string where
  "url_for_logout = ''/logout''"

text \<open>
  Modelled from the spec: the exception classes of \<open>webapp.api.exceptions\<close> are not in
  the sources. The error kinds are those the spec lists; the response error, the list
  error, the decode error and the circuit breaker are kinds of the generic API error, as
  the order of the \<open>except\<close> clauses supposes.
\<close>

fun is_ApiError :: "exn \<Rightarrow> bool" where
  "is_ApiError (ApiError m) = True"
| "is_ApiError (ApiResponseError m c) = True"
| "is_ApiError (ApiResponseErrorList m c l) = True"
| "is_ApiError (ApiResponseDecodeError m) = True"
| "is_ApiError ApiCircuitBreaker = True"
| "is_ApiError e = False"

text \<open>
  A view's use of an attribute of \<open>login\<close> on the way to its response: the lookup comes
  first, and its \<open>AttributeError\<close> is what the view ends with.
\<close>

definition via_login :: "string \<Rightarrow> http_result \<Rightarrow> http_result" where
  "via_login name r = (case login_attr name of Inl e \<Rightarrow> Raised e | Inr u \<Rightarrow> r)"

definition raised :: "exn \<Rightarrow> session \<Rightarrow> nat \<Rightarrow> outcome" where
  "raised e session n = \<lparr>result = Raised e, session_after = session, macaroons_requested = n\<rparr>"

text \<open>
  The \<open>except\<close> clauses of \<open>login_handler\<close>, in their order. Each answers through
  \<open>login.redirect\<close>, \<open>login.url_for\<close> or \<open>login.abort\<close>; the callee is looked up
  before its arguments.
\<close>

fun login_handler_except :: "exn \<Rightarrow> http_result" where
  "login_handler_except (ApiResponseError m status) =
     (if status = 401 then
        via_login ''redirect'' (via_login ''url_for'' (Redirect url_for_logout))
      else via_login ''abort'' (Abort 502 (Some (ApiResponseError m status))))"
| "login_handler_except ApiCircuitBreaker = via_login ''abort'' (Abort 503 None)"
| "login_handler_except api_error =
     (if is_ApiError api_error then via_login ''abort'' (Abort 502 (Some api_error))
      else Raised api_error)"

text \<open>
  The entry point. Its first test reads \<open>flask.session\<close> and answers with
  \<open>flask.redirect\<close>; everything after it goes through \<open>login\<close>. The caveat id is
  computed before the root macaroon is stored in \<open>login.session\<close>. The stray full stop
  on the line after that assignment in the source is left out.
\<close>

definition login_handler :: "env \<Rightarrow> session \<Rightarrow> outcome" where
  "login_handler env session =
     (if is_authenticated session then
        \<lparr>result = Redirect (get_next_url env), session_after = session,
         macaroons_requested = 0\<rparr>
      else
        (case request_macaroon env of
           Inl e \<Rightarrow>
             \<lparr>result = login_handler_except e, session_after = session,
              macaroons_requested = 1\<rparr>
         | Inr root_macaroon \<Rightarrow>
             (case get_caveat_id env root_macaroon of
                Inl e \<Rightarrow> raised e session 1
              | Inr caveat_id \<Rightarrow>
                  (case login_attr ''session'' of
                     Inl e \<Rightarrow> raised e session 1
                   | Inr u \<Rightarrow>
                       \<lparr>result = TryLogin (LOGIN_URL env) [''email'', ''nickname'', ''image'']
                                   [''fullname''] caveat_id [LP_CANONICAL_TEAM],
                        session_after = session(''macaroon_root'' \<mapsto> JStr root_macaroon),
                        macaroons_requested = 1\<rparr>))))"

text \<open>
  The provider's response as \<open>after_login\<close> reads it: the identity attributes, each a
  string or \<open>None\<close>, the discharge of the macaroon extension and the teams of the
  team extension.
\<close>

record resp =
  identity_url :: "string option"
  nickname :: "string option"
  fullname :: "string option"
  image :: "string option"
  email :: "string option"
  discharge :: "string option"
  is_member :: "string list"

definition str_or_none :: "string option \<Rightarrow> json" where
  "str_or_none v = (case v of None \<Rightarrow> JNull | Some s \<Rightarrow> JStr s)"

definition provider_openid :: "resp \<Rightarrow> json" where
  "provider_openid resp =
     JObj [(''identity_url'', str_or_none (identity_url resp)),
           (''nickname'', str_or_none (nickname resp)),
           (''fullname'', str_or_none (fullname resp)),
           (''image'', str_or_none (image resp)),
           (''email'', str_or_none (email resp))]"

definition account_openid :: "resp \<Rightarrow> json \<Rightarrow> json result" where
  "account_openid resp account =
     and_then (getitem account ''username'') (\<lambda>username.
     and_then (getitem account ''displayname'') (\<lambda>displayname.
     and_then (getitem account ''email'') (\<lambda>account_email.
       Inr (JObj [(''identity_url'', str_or_none (identity_url resp)),
                  (''nickname'', username),
                  (''fullname'', displayname),
                  (''image'', str_or_none (image resp)),
                  (''email'', account_email),
                  (''is_canonical'', JBool (LP_CANONICAL_TEAM \<in> set (is_member resp)))]))))"

text \<open>
  The \<open>try\<close> block of \<open>after_login\<close>: the session it ends with, or the exception it
  raises together with the session at that moment. The modules \<open>dashboard\<close> and
  \<open>logic\<close> are looked up by name, the session is \<open>login.session\<close>; in an assignment to
  \<open>login.session[...]\<close> the right-hand side is computed first.
\<close>

definition after_login_try :: "env \<Rightarrow> resp \<Rightarrow> session \<Rightarrow> (exn \<times> session) + session" where
  "after_login_try env resp session1 =
     (case and_then (name_bound ''dashboard'') (\<lambda>u.
           and_then (login_attr ''session'') (\<lambda>u. dashboard_get_account env session1)) of
        Inl e \<Rightarrow> Inl (e, session1)
      | Inr account \<Rightarrow>
          (case and_then (account_openid resp account) (\<lambda>openid.
                and_then (login_attr ''session'') (\<lambda>u. Inr openid)) of
             Inl e \<Rightarrow> Inl (e, session1)
           | Inr openid \<Rightarrow>
               (let session2 = session1(''openid'' \<mapsto> openid)
                in case and_then (name_bound ''logic'') (\<lambda>u.
                        and_then (get_snap_names_by_ownership env account) (\<lambda>(owned, shared).
                        and_then (login_attr ''session'') (\<lambda>u. Inr shared))) of
                     Inl e \<Rightarrow> Inl (e, session2)
                   | Inr shared \<Rightarrow> Inr (session2(''user_shared_snaps'' \<mapsto> shared)))))"

text \<open>
  The two \<open>except\<close> clauses of \<open>after_login\<close>, entered with the session as the
  \<open>try\<close> block left it; \<open>except Exception\<close> catches every exception of
  \<^typ>\<open>exn\<close>, and an exception raised inside a clause leaves the view.
\<close>

definition after_login_except :: "env \<Rightarrow> resp \<Rightarrow> session \<Rightarrow> exn \<Rightarrow> outcome" where
  "after_login_except env resp session e =
     (if e = ApiCircuitBreaker then
        \<lparr>result = via_login ''abort'' (Abort 503 None), session_after = session,
         macaroons_requested = 0\<rparr>
      else
        (case login_attr ''session'' of
           Inl e' \<Rightarrow> raised e' session 0
         | Inr u \<Rightarrow>
             \<lparr>result = via_login ''redirect'' (Redirect (get_next_url env)),
              session_after = session(''openid'' \<mapsto> provider_openid resp),
              macaroons_requested = 0\<rparr>))"

text \<open>
  The callback. Its first line assigns to \<open>login.session["macaroon_discharge"]\<close>: the
  discharge is read from the response, then \<open>login.session\<close> is looked up.
\<close>

definition after_login :: "env \<Rightarrow> session \<Rightarrow> resp \<Rightarrow> outcome" where
  "after_login env session resp =
     (case login_attr ''session'' of
        Inl e \<Rightarrow> raised e session 0
      | Inr u \<Rightarrow>
          (let session1 = session(''macaroon_discharge'' \<mapsto> str_or_none (discharge resp))
           in if \<not> truthy (str_or_none (nickname resp)) then
                \<lparr>result = via_login ''redirect'' (Redirect (LOGIN_URL env)),
                 session_after = session1, macaroons_requested = 0\<rparr>
              else
                (case after_login_try env resp session1 of
                   Inl (e, session2) \<Rightarrow> after_login_except env resp session2 e
                 | Inr session3 \<Rightarrow>
                     \<lparr>result = via_login ''redirect'' (Redirect (get_next_url env)),
                      session_after = session3, macaroons_requested = 0\<rparr>)))"

text \<open>
  \<open>urllib.parse.quote(string, safe="")\<close>: letters, digits and \<open>_.-~\<close> stay, every
  other byte becomes \<open>%XX\<close> in upper-case hexadecimal.
\<close>

definition hex_digit :: "nat \<Rightarrow> char" where
  "hex_digit n = ''0123456789ABCDEF'' ! n"

definition always_safe :: "char set" where
  "always_safe =
     set ''ABCDEFGHIJKLMNOPQRSTUVWXYZabcdefghijklmnopqrstuvwxyz0123456789_.-~''"

definition quote_char :: "char \<Rightarrow> string" where
  "quote_char c =
     (if c \<in> always_safe then [c]
      else [CHR ''%'', hex_digit (of_char c div 16), hex_digit (of_char c mod 16)])"

definition quote :: "string \<Rightarrow> string" where
  "quote s = concat (map quote_char s)"

text \<open>What \<open>logout\<close> reads of the request: the query arguments and the root URL.\<close>

record http_request =
  args :: "string \<rightharpoonup> string"
  url_root :: string

text \<open>
  The logout view. It reads the query from \<open>login.request\<close>, the session from
  \<open>login.session\<close> and answers through \<open>login.redirect\<close>.
\<close>

definition logout :: "env \<Rightarrow> session \<Rightarrow> http_request \<Rightarrow> outcome" where
  "logout env session request =
     (case login_attr ''request'' of
        Inl e \<Rightarrow> raised e session 0
      | Inr u \<Rightarrow>
          (let no_redirect =
                 (case args request ''no_redirect'' of None \<Rightarrow> ''false'' | Some v \<Rightarrow> v)
           in case login_attr ''session'' of
                Inl e \<Rightarrow> raised e session 0
              | Inr u \<Rightarrow>
                  (let session1 =
                         (if is_authenticated session then empty_session session else session)
                   in if no_redirect = ''true'' then
                        \<lparr>result = via_login ''redirect'' (Redirect ''/''),
                         session_after = session1, macaroons_requested = 0\<rparr>
                      else
                        (let redirect_url = quote (url_root request)
                         in \<lparr>result = via_login ''redirect''
                                        (Redirect (LOGIN_URL env @ ''/+logout?return_to=''
                                                   @ redirect_url @ ''&return_now=True'')),
                             session_after = session1, macaroons_requested = 0\<rparr>))))"

subsection \<open>Sequences of transitions\<close>

text \<open>
  One transition of the login state machine on a session: a request to the login entry
  point, the provider's callback, or a request to the logout endpoint, each with the
  behaviour of the collaborators at that moment.
\<close>

datatype event =
    LoginEntry env
  | ProviderCallback env resp
  | LogoutRequest env http_request

fun step :: "session \<Rightarrow> event \<Rightarrow> session" where
  "step session (LoginEntry env) = session_after (login_handler env session)"
| "step session (ProviderCallback env resp) = session_after (after_login env session resp)"
| "step session (LogoutRequest env request) = session_after (logout env session request)"

fun run :: "session \<Rightarrow> event list \<Rightarrow> session" where
  "run session [] = session"
| "run session (ev # evs) = run (step session ev) evs"

definition discharge_only_with_root :: "session \<Rightarrow> bool" where
  "discharge_only_with_root session =
     (session ''macaroon_discharge'' \<noteq> None \<longrightarrow> session ''macaroon_root'' \<noteq> None)"

section \<open>Sample inputs\<close>

text \<open>
  A deployment on which the views and the client are evaluated: the outcome of the macaroon
  request and the backend's reply to every request are given, the expiry signal is the
  header \<open>WWW-Authenticate: Macaroon needs_refresh=1\<close>.
\<close>

definition sample_env :: "string result \<Rightarrow> response result \<Rightarrow> env" where
  "sample_env macaroon reply =
     \<lparr>getenv_LOGIN_URL = None,
      request_macaroon = macaroon,
      get_caveat_id = (\<lambda>r. Inr ''caveat''),
      bind_macaroons = (\<lambda>r d. Inr ''Macaroon root=r, discharge=d''),
      is_macaroon_expired =
        (\<lambda>h. h ''WWW-Authenticate'' = Some ''Macaroon needs_refresh=1''),
      send = (\<lambda>req. reply),
      dashboard_get_account = (\<lambda>session. and_then reply (\<lambda>r. process_response r)),
      get_snap_names_by_ownership = (\<lambda>account. Inr (JList [], JList [JStr ''shared''])),
      get_next_url = ''/account'',
      ACCOUNT_URL = ''/account'',
      AGREEMENT_URL = ''/agreement'',
      SNAP_PUB_METRICS_URL = ''/metrics'',
      PUB_METRICS_QUERY_HEADERS = [''Content-Type'' \<mapsto> ''application/json''],
      REGISTER_NAME_URL = ''/register-name'',
      REGISTER_NAME_DISPUTE_URL = ''/register-name-dispute'',
      SNAP_INFO_URL = (\<lambda>snap_name. ''/info/'' @ snap_name),
      METADATA_QUERY_URL = (\<lambda>snap_id. ''/metadata/'' @ snap_id),
      SCREENSHOTS_QUERY_URL = (\<lambda>snap_id. ''/screenshots/'' @ snap_id),
      REVISION_HISTORY_URL = (\<lambda>snap_id. ''/history/'' @ snap_id),
      SNAP_RELEASE_HISTORY_URL = (\<lambda>snap_name page. ''/releases/'' @ snap_name),
      SNAP_RELEASE = ''/release'',
      CLOSE_CHANNEL = (\<lambda>snap_id. ''/close/'' @ snap_id)\<rparr>"

definition expired_garbled :: response where
  "expired_garbled =
     \<lparr>status_code = 200, ok = True,
      resp_headers = [''WWW-Authenticate'' \<mapsto> ''Macaroon needs_refresh=1''],
      resp_json = Inl ''Expecting value''\<rparr>"

definition garbled_500 :: response where
  "garbled_500 =
     \<lparr>status_code = 500, ok = False, resp_headers = Map.empty,
      resp_json = Inl ''Expecting value''\<rparr>"

definition not_signed_body :: json where
  "not_signed_body =
     JObj [(''error_list'',
            JList [JObj [(''code'', JStr ''user-not-ready''),
                         (''message'', JStr ''Developer has not signed agreement.'')]])]"

definition not_signed_403 :: response where
  "not_signed_403 =
     \<lparr>status_code = 403, ok = False, resp_headers = Map.empty,
      resp_json = Inr not_signed_body\<rparr>"


definition detail_404 :: response where
  "detail_404 =
     \<lparr>status_code = 404, ok = False, resp_headers = Map.empty,
      resp_json = Inr (JObj [(''detail'', JStr ''Not found'')])\<rparr>"

definition anonymous :: session where
  "anonymous = Map.empty"

definition credentials :: session where
  "credentials = [''macaroon_root'' \<mapsto> JStr ''r'', ''macaroon_discharge'' \<mapsto> JStr ''d'']"

definition authorization :: headers where
  "authorization = [''Authorization'' \<mapsto> ''Macaroon root=r, discharge=d'']"

definition established :: session where
  "established =
     credentials(''openid'' \<mapsto> JObj [(''nickname'', JStr ''jdoe'')],
                 ''user_shared_snaps'' \<mapsto> JList [JStr ''shared''])"

definition provider_resp :: resp where
  "provider_resp =
     \<lparr>identity_url = Some ''https://login.ubuntu.com/+id/abc'', nickname = Some ''jdoe'',
      fullname = Some ''J Doe'', image = None, email = Some ''jdoe@example.com'',
      discharge = Some ''d'', is_member = [''canonical'']\<rparr>"

definition nameless_resp :: resp where
  "nameless_resp = provider_resp\<lparr>nickname := None\<rparr>"

definition site_request :: "string option \<Rightarrow> http_request" where
  "site_request no_redirect =
     \<lparr>args = (\<lambda>k. if k = ''no_redirect'' then no_redirect else None),
      url_root = ''http://localhost:8004/''\<rparr>"

section \<open>Properties\<close>

subsection \<open>Names the file does not bind, attributes the blueprint lacks\<close>

lemma unbound_names:
  "named_exn ''MacaroonRefreshRequired'' e = NameError ''MacaroonRefreshRequired''"
  "named_exn ''ApiResponseDecodeError'' e = NameError ''ApiResponseDecodeError''"
  "named_exn ''ApiResponseErrorList'' e = NameError ''ApiResponseErrorList''"
  "named_exn ''AgreementNotSigned'' e = NameError ''AgreementNotSigned''"
  "named_exn ''MissingUsername'' e = NameError ''MissingUsername''"
  "name_bound ''dashboard'' = Inl (NameError ''dashboard'')"
  "name_bound ''logic'' = Inl (NameError ''logic'')"
  by (simp_all add: named_exn_def name_bound_def module_names_def)

lemma bound_names: "named_exn ''ApiResponseError'' e = e"
  by (simp add: named_exn_def name_bound_def module_names_def)

lemma login_attr_missing:
  "login_attr ''session'' = Inl (AttributeError ''session'')"
  "login_attr ''request'' = Inl (AttributeError ''request'')"
  "login_attr ''redirect'' = Inl (AttributeError ''redirect'')"
  "login_attr ''abort'' = Inl (AttributeError ''abort'')"
  "login_attr ''url_for'' = Inl (AttributeError ''url_for'')"
  by (simp_all add: login_attr_def blueprint_attributes_def)

lemma login_attr_route: "login_attr ''route'' = Inr ()"
  by (simp add: login_attr_def blueprint_attributes_def)

subsection \<open>Evaluation of the sample inputs\<close>

lemmas request_defs =
  get_account_request_def get_agreement_request_def post_agreement_request_def
  post_username_request_def get_publisher_metrics_request_def post_register_name_request_def
  post_register_name_dispute_request_def get_snap_info_request_def snap_metadata_request_def
  snap_screenshots_request_def snap_revision_history_request_def
  snap_release_history_request_def post_snap_release_request_def
  post_close_channel_request_def

lemma sample_env_fields:
  "send (sample_env m reply) req = reply"
  "is_macaroon_expired (sample_env m reply) h
     = (h ''WWW-Authenticate'' = Some ''Macaroon needs_refresh=1'')"
  "request_macaroon (sample_env m reply) = m"
  "get_caveat_id (sample_env m reply) r = Inr ''caveat''"
  "get_snap_names_by_ownership (sample_env m reply) account
     = Inr (JList [], JList [JStr ''shared''])"
  "get_next_url (sample_env m reply) = ''/account''"
  "getenv_LOGIN_URL (sample_env m reply) = None"
  "bind_macaroons (sample_env m reply) v w = Inr ''Macaroon root=r, discharge=d''"
  "ACCOUNT_URL (sample_env m reply) = ''/account''"
  by (simp_all add: sample_env_def)

lemma sample_authorization:
  "get_authorization_header (sample_env m reply) credentials = Inr authorization"
  by (simp add: get_authorization_header_def session_item_def and_then_def credentials_def
      sample_env_fields authorization_def)

lemma is_authenticated_established: "is_authenticated established"
  by (simp add: is_authenticated_def established_def)

lemma not_authenticated_anonymous: "\<not> is_authenticated anonymous"
  by (simp add: is_authenticated_def anonymous_def)

lemma not_authenticated_credentials: "\<not> is_authenticated credentials"
  by (simp add: is_authenticated_def credentials_def)

lemma quote_site_root: "quote ''http://localhost:8004/'' = ''http%3A%2F%2Flocalhost%3A8004%2F''"
  by (simp add: quote_def quote_char_def always_safe_def hex_digit_def)

subsection \<open>The response-handling pattern\<close>

lemma process_response_decode_error:
  "resp_json response = Inl m \<Longrightarrow>
   process_response response = Inl (NameError ''ApiResponseDecodeError'')"
  by (simp add: process_response_def unbound_names)

lemma process_response_ok:
  "resp_json response = Inr body \<Longrightarrow> ok response \<Longrightarrow> process_response response = Inr body"
  by (simp add: process_response_def)

lemma process_response_empty_object:
  "resp_json response = Inr (JObj []) \<Longrightarrow> \<not> ok response \<Longrightarrow>
   process_response response
     = Inl (ApiResponseError ''Unknown error from api'' (status_code response))"
  by (simp add: process_response_def bound_names)

lemma process_response_error_list:
  assumes "resp_json response = Inr (JObj kvs)" and "\<not> ok response"
    and "map_of kvs ''error_list'' = Some (JList errors)"
  shows "process_response response =
           (case error_list_loop errors of
              Some e \<Rightarrow> Inl e
            | None \<Rightarrow> Inl (NameError ''ApiResponseErrorList''))"
proof -
  from assms(3) have "''error_list'' \<in> fst ` set kvs"
    by (metis domI dom_map_of_conv_image_fst)
  with assms show ?thesis
    by (simp add: process_response_def and_then_def unbound_names split: option.splits)
qed

text \<open>
  C10. On a response that is not ok, whose decoded body is non-empty and holds no
  \<open>error_list\<close>, \<open>process_response\<close> raises nothing and returns the decoded body,
  exactly as it does for the same response with an ok status.
\<close>

theorem process_response_not_ok_passes_body:
  assumes "resp_json response = Inr body"
    and "\<not> ok response"
    and "str_in ''error_list'' body = Inr False"
    and "truthy body"
  shows "process_response response = Inr body
         \<and> process_response (response\<lparr>ok := True\<rparr>) = Inr body"
  using assms by (simp add: process_response_def)

theorem process_response_not_ok_passes_body_witness:
  "process_response detail_404 = Inr (JObj [(''detail'', JStr ''Not found'')])
   \<and> \<not> ok detail_404"
  using process_response_not_ok_passes_body
    [of detail_404 "JObj [(''detail'', JStr ''Not found'')]"]
  by (simp add: detail_404_def)

subsection \<open>Expiry of the macaroon\<close>

text \<open>
  In every operation of the client the expiry header is tested before the body is read:
  when the response to the request the operation sent carries the signal, the operation
  ends at \<open>raise MacaroonRefreshRequired\<close>, whatever the body and the status are. The
  file does not bind that name, so the exception that leaves the operation is
  \<open>NameError\<close>.
\<close>

lemma expired_response_is_not_parsed:
  assumes "send env req = Inr response"
    and "is_macaroon_expired env (resp_headers response)"
  shows
    "(get_account_request env session = Inr req \<longrightarrow>
        get_account env session = Inl (NameError ''MacaroonRefreshRequired''))
   \<and> (get_agreement_request env session = Inr req \<longrightarrow>
        get_agreement env session = Inl (NameError ''MacaroonRefreshRequired''))
   \<and> (post_agreement_request env session agreed = Inr req \<longrightarrow>
        post_agreement env session agreed = Inl (NameError ''MacaroonRefreshRequired''))
   \<and> (post_username_request env session username = Inr req \<longrightarrow>
        post_username env session username = Inl (NameError ''MacaroonRefreshRequired''))
   \<and> (get_publisher_metrics_request env session metrics_json = Inr req \<longrightarrow>
        get_publisher_metrics env session metrics_json
          = Inl (NameError ''MacaroonRefreshRequired''))
   \<and> (post_register_name_request env session snap_name registrant_comment is_private store
          = Inr req \<longrightarrow>
        post_register_name env session snap_name registrant_comment is_private store
          = Inl (NameError ''MacaroonRefreshRequired''))
   \<and> (post_register_name_dispute_request env session snap_name claim_comment = Inr req \<longrightarrow>
        post_register_name_dispute env session snap_name claim_comment
          = Inl (NameError ''MacaroonRefreshRequired''))
   \<and> (get_snap_info_request env snap_name session = Inr req \<longrightarrow>
        get_snap_info env snap_name session = Inl (NameError ''MacaroonRefreshRequired''))
   \<and> (get_snap_info_request env snap_name session = Inr req \<longrightarrow>
        get_snap_id env snap_name session = Inl (NameError ''MacaroonRefreshRequired''))
   \<and> (snap_metadata_request env snap_id session metadata_json = Inr req \<longrightarrow>
        snap_metadata env snap_id session metadata_json
          = Inl (NameError ''MacaroonRefreshRequired''))
   \<and> (snap_screenshots_request env snap_id session data files = Inr req \<longrightarrow>
        snap_screenshots env snap_id session data files
          = Inl (NameError ''MacaroonRefreshRequired''))
   \<and> (snap_revision_history_request env session snap_id = Inr req \<longrightarrow>
        snap_revision_history env session snap_id = Inl (NameError ''MacaroonRefreshRequired''))
   \<and> (snap_release_history_request env session snap_name page = Inr req \<longrightarrow>
        snap_release_history env session snap_name page
          = Inl (NameError ''MacaroonRefreshRequired''))
   \<and> (post_snap_release_request env session snap_name release_json = Inr req \<longrightarrow>
        post_snap_release env session snap_name release_json
          = Inl (NameError ''MacaroonRefreshRequired''))
   \<and> (post_close_channel_request env session snap_id channel_json = Inr req \<longrightarrow>
        post_close_channel env session snap_id channel_json
          = Inl (NameError ''MacaroonRefreshRequired''))"
  using assms
  by (simp add: and_then_def unbound_names get_account_def get_agreement_def
      post_agreement_def post_username_def get_publisher_metrics_def post_register_name_def
      post_register_name_dispute_def get_snap_info_def get_snap_id_def snap_metadata_def
      snap_screenshots_def snap_revision_history_def snap_release_history_def
      post_snap_release_def post_close_channel_def)

text \<open>
  C1. The sample backend answers every request with status 200, the expiry header and a
  body that is not JSON. None of the fifteen operations decodes the body, and none raises
  \<open>MacaroonRefreshRequired\<close>: each ends with \<open>NameError\<close> for that name.
\<close>

theorem expired_response_raises_name_error:
  "get_account (sample_env (Inr ''r'') (Inr expired_garbled)) credentials
     = Inl (NameError ''MacaroonRefreshRequired'')
   \<and> get_agreement (sample_env (Inr ''r'') (Inr expired_garbled)) credentials
     = Inl (NameError ''MacaroonRefreshRequired'')
   \<and> post_agreement (sample_env (Inr ''r'') (Inr expired_garbled)) credentials True
     = Inl (NameError ''MacaroonRefreshRequired'')
   \<and> post_username (sample_env (Inr ''r'') (Inr expired_garbled)) credentials ''jdoe''
     = Inl (NameError ''MacaroonRefreshRequired'')
   \<and> get_publisher_metrics (sample_env (Inr ''r'') (Inr expired_garbled)) credentials JNull
     = Inl (NameError ''MacaroonRefreshRequired'')
   \<and> post_register_name (sample_env (Inr ''r'') (Inr expired_garbled)) credentials ''snap''
        None False None
     = Inl (NameError ''MacaroonRefreshRequired'')
   \<and> post_register_name_dispute (sample_env (Inr ''r'') (Inr expired_garbled)) credentials
        ''snap'' ''mine''
     = Inl (NameError ''MacaroonRefreshRequired'')
   \<and> get_snap_info (sample_env (Inr ''r'') (Inr expired_garbled)) ''snap'' credentials
     = Inl (NameError ''MacaroonRefreshRequired'')
   \<and> get_snap_id (sample_env (Inr ''r'') (Inr expired_garbled)) ''snap'' credentials
     = Inl (NameError ''MacaroonRefreshRequired'')
   \<and> snap_metadata (sample_env (Inr ''r'') (Inr expired_garbled)) ''id'' credentials None
     = Inl (NameError ''MacaroonRefreshRequired'')
   \<and> snap_screenshots (sample_env (Inr ''r'') (Inr expired_garbled)) ''id'' credentials
        None None
     = Inl (NameError ''MacaroonRefreshRequired'')
   \<and> snap_revision_history (sample_env (Inr ''r'') (Inr expired_garbled)) credentials ''id''
     = Inl (NameError ''MacaroonRefreshRequired'')
   \<and> snap_release_history (sample_env (Inr ''r'') (Inr expired_garbled)) credentials
        ''snap'' 1
     = Inl (NameError ''MacaroonRefreshRequired'')
   \<and> post_snap_release (sample_env (Inr ''r'') (Inr expired_garbled)) credentials
        ''snap'' JNull
     = Inl (NameError ''MacaroonRefreshRequired'')
   \<and> post_close_channel (sample_env (Inr ''r'') (Inr expired_garbled)) credentials
        ''id'' JNull
     = Inl (NameError ''MacaroonRefreshRequired'')"
proof -
  let ?E = "sample_env (Inr ''r'') (Inr expired_garbled)"
  let ?N = "NameError ''MacaroonRefreshRequired''"
  have s: "send ?E req = Inr expired_garbled" for req
    by (simp add: sample_env_fields)
  have x: "is_macaroon_expired ?E (resp_headers expired_garbled)"
    by (simp add: sample_env_fields expired_garbled_def)
  note T = expired_response_is_not_parsed [OF s x, where session = credentials]
  note ev = request_defs sample_authorization and_then_def
  obtain r1 where "get_account_request ?E credentials = Inr r1"
    by (simp add: ev)
  with T [where req = r1]
  have 1: "get_account ?E credentials = Inl ?N"
    by blast
  obtain r2 where "get_agreement_request ?E credentials = Inr r2"
    by (simp add: ev)
  with T [where req = r2]
  have 2: "get_agreement ?E credentials = Inl ?N"
    by blast
  obtain r3 where "post_agreement_request ?E credentials True = Inr r3"
    by (simp add: ev)
  with T [where req = r3]
  have 3: "post_agreement ?E credentials True = Inl ?N"
    by blast
  obtain r4 where "post_username_request ?E credentials ''jdoe'' = Inr r4"
    by (simp add: ev)
  with T [where req = r4]
  have 4: "post_username ?E credentials ''jdoe'' = Inl ?N"
    by blast
  obtain r5 where "get_publisher_metrics_request ?E credentials JNull = Inr r5"
    by (simp add: ev authorization_def)
  with T [where req = r5]
  have 5: "get_publisher_metrics ?E credentials JNull = Inl ?N"
    by blast
  obtain r6 where "post_register_name_request ?E credentials ''snap'' None False None = Inr r6"
    by (simp add: ev)
  with T [where req = r6]
  have 6: "post_register_name ?E credentials ''snap'' None False None = Inl ?N"
    by blast
  obtain r7 where "post_register_name_dispute_request ?E credentials ''snap'' ''mine'' = Inr r7"
    by (simp add: ev)
  with T [where req = r7]
  have 7: "post_register_name_dispute ?E credentials ''snap'' ''mine'' = Inl ?N"
    by blast
  obtain r8 where r8: "get_snap_info_request ?E ''snap'' credentials = Inr r8"
    by (simp add: ev)
  with T [where req = r8]
  have 8: "get_snap_info ?E ''snap'' credentials = Inl ?N"
    by blast
  from r8 T [where req = r8]
  have 9: "get_snap_id ?E ''snap'' credentials = Inl ?N"
    by blast
  obtain r10 where "snap_metadata_request ?E ''id'' credentials None = Inr r10"
    by (simp add: ev)
  with T [where req = r10]
  have 10: "snap_metadata ?E ''id'' credentials None = Inl ?N"
    by blast
  obtain r11 where "snap_screenshots_request ?E ''id'' credentials None None = Inr r11"
    by (simp add: ev)
  with T [where req = r11]
  have 11: "snap_screenshots ?E ''id'' credentials None None = Inl ?N"
    by blast
  obtain r12 where "snap_revision_history_request ?E credentials ''id'' = Inr r12"
    by (simp add: ev)
  with T [where req = r12]
  have 12: "snap_revision_history ?E credentials ''id'' = Inl ?N"
    by blast
  obtain r13 where "snap_release_history_request ?E credentials ''snap'' 1 = Inr r13"
    by (simp add: ev)
  with T [where req = r13]
  have 13: "snap_release_history ?E credentials ''snap'' 1 = Inl ?N"
    by blast
  obtain r14 where "post_snap_release_request ?E credentials ''snap'' JNull = Inr r14"
    by (simp add: ev)
  with T [where req = r14]
  have 14: "post_snap_release ?E credentials ''snap'' JNull = Inl ?N"
    by blast
  obtain r15 where "post_close_channel_request ?E credentials ''id'' JNull = Inr r15"
    by (simp add: ev)
  with T [where req = r15]
  have 15: "post_close_channel ?E credentials ''id'' JNull = Inl ?N"
    by blast
  from 1 2 3 4 5 6 7 8 9 10 11 12 13 14 15 show ?thesis
    by simp
qed



text \<open>
  C5. The agreement fetch does not follow the pattern of the other operations: it returns
  \<open>json()\<close> of the response and never calls \<open>process_response\<close>. On a body that is
  not JSON it raises the bare \<open>ValueError\<close>; on a 403 whose \<open>error_list\<close> says that
  the agreement is not signed it returns the error body as a success. Its sibling
  \<open>post_agreement\<close> hands both responses to \<open>process_response\<close>, which reaches the
  lines that raise the decode error and \<open>AgreementNotSigned\<close>; the file binds neither
  class, so what leaves is \<open>NameError\<close> for the class's name.
\<close>

theorem get_agreement_bypasses_process_response:
  "get_agreement (sample_env (Inr ''r'') (Inr garbled_500)) credentials
     = Inl (ValueError ''Expecting value'')
   \<and> post_agreement (sample_env (Inr ''r'') (Inr garbled_500)) credentials True
     = Inl (NameError ''ApiResponseDecodeError'')
   \<and> get_agreement (sample_env (Inr ''r'') (Inr not_signed_403)) credentials
     = Inr not_signed_body
   \<and> post_agreement (sample_env (Inr ''r'') (Inr not_signed_403)) credentials True
     = Inl (NameError ''AgreementNotSigned'')"
  by (simp add: get_agreement_def post_agreement_def request_defs sample_authorization
      and_then_def process_response_def sample_env_fields garbled_500_def not_signed_403_def
      not_signed_body_def unbound_names)


subsection \<open>The login entry point\<close>

text \<open>
  C6. On a session that is already authenticated the login entry point does not call
  \<open>request_macaroon\<close>, leaves the session as it is and redirects to the next-URL;
  calling it again on the session it leaves gives the same outcome.
\<close>

theorem login_handler_authenticated_redirects:
  assumes "is_authenticated session"
  shows "login_handler env session =
           \<lparr>result = Redirect (get_next_url env), session_after = session,
            macaroons_requested = 0\<rparr>
         \<and> login_handler env (session_after (login_handler env session))
             = login_handler env session"
  using assms by (simp add: login_handler_def)

theorem login_handler_authenticated_redirects_witness:
  "login_handler (sample_env (Inr ''r'') (Inr garbled_500)) established =
     \<lparr>result = Redirect ''/account'', session_after = established, macaroons_requested = 0\<rparr>"
  using login_handler_authenticated_redirects
    [OF is_authenticated_established, of "sample_env (Inr ''r'') (Inr garbled_500)"]
  by (simp add: sample_env_fields)

text \<open>
  On a session that is not authenticated every path of the entry point ends in an
  exception: the \<open>except\<close> clauses answer through \<open>login.redirect\<close> and
  \<open>login.abort\<close>, and the path on which the macaroon was issued assigns to
  \<open>login.session\<close>. The session is never written.
\<close>

lemma login_handler_except_raises:
  "login_handler_except (ApiResponseError m 401) = Raised (AttributeError ''redirect'')"
  "status \<noteq> 401 \<Longrightarrow>
     login_handler_except (ApiResponseError m status) = Raised (AttributeError ''abort'')"
  "login_handler_except (ApiError m) = Raised (AttributeError ''abort'')"
  "login_handler_except ApiCircuitBreaker = Raised (AttributeError ''abort'')"
  by (simp_all add: via_login_def login_attr_missing)

lemma login_handler_leaves_session: "session_after (login_handler env session) = session"
  by (simp add: login_handler_def raised_def login_attr_missing split: sum.splits)

lemma login_handler_except_never_hands_over:
  "login_handler_except e \<noteq> TryLogin u a b c d"
  by (cases e) (simp_all add: via_login_def login_attr_missing)

lemma login_handler_never_hands_over:
  "result (login_handler env session) \<noteq> TryLogin u a b c d"
  by (simp add: login_handler_def raised_def login_attr_missing
      login_handler_except_never_hands_over split: sum.splits)

text \<open>
  C4. On the anonymous session, with the macaroon request failing: a 401
  \<open>ApiResponseError\<close> ends in \<open>AttributeError\<close> for \<open>login.redirect\<close>, not in a
  redirect to the logout route; another \<open>ApiResponseError\<close>, a generic \<open>ApiError\<close>
  and \<open>ApiCircuitBreaker\<close> end in \<open>AttributeError\<close> for \<open>login.abort\<close>, not in an
  abort with 502 or 503.
\<close>

theorem login_handler_macaroon_failure_raises:
  "result (login_handler (sample_env (Inl (ApiResponseError ''unauthorized'' 401))
             (Inr garbled_500)) anonymous) = Raised (AttributeError ''redirect'')
   \<and> result (login_handler (sample_env (Inl (ApiResponseError ''gone'' 410))
             (Inr garbled_500)) anonymous) = Raised (AttributeError ''abort'')
   \<and> result (login_handler (sample_env (Inl (ApiError ''timeout''))
             (Inr garbled_500)) anonymous) = Raised (AttributeError ''abort'')
   \<and> result (login_handler (sample_env (Inl ApiCircuitBreaker)
             (Inr garbled_500)) anonymous) = Raised (AttributeError ''abort'')"
  by (simp add: login_handler_def not_authenticated_anonymous sample_env_fields
      via_login_def login_attr_missing)

subsection \<open>The provider callback\<close>

text \<open>
  The callback ends at its first line, whatever the session and the response are: the
  assignment to \<open>login.session\<close> raises, nothing is stored and nothing after it runs.
\<close>

lemma after_login_raises:
  "after_login env session resp = raised (AttributeError ''session'') session 0"
  by (simp add: after_login_def login_attr_missing)

text \<open>
  Were the first line to pass, the account fetch would still not be made: the \<open>try\<close>
  block ends at the lookup of \<open>dashboard\<close>.
\<close>

lemma after_login_try_raises:
  "after_login_try env resp session = Inl (NameError ''dashboard'', session)"
  by (simp add: after_login_try_def and_then_def unbound_names)

text \<open>
  C7. A callback whose response carries no nickname, on a session that holds the root
  macaroon: the handler raises \<open>AttributeError\<close> where the redirect to the provider's
  login URL is due. The session is as it was, without discharge and not authenticated.
\<close>

theorem after_login_without_nickname_raises:
  "nickname nameless_resp = None
   \<and> result (after_login (sample_env (Inr ''r'') (Inr garbled_500))
               (anonymous(''macaroon_root'' \<mapsto> JStr ''r'')) nameless_resp)
       = Raised (AttributeError ''session'')
   \<and> session_after (after_login (sample_env (Inr ''r'') (Inr garbled_500))
               (anonymous(''macaroon_root'' \<mapsto> JStr ''r'')) nameless_resp)
       = anonymous(''macaroon_root'' \<mapsto> JStr ''r'')"
  by (simp add: after_login_raises raised_def nameless_resp_def provider_resp_def)

text \<open>
  C3. A callback whose response carries a nickname, on a session that holds the root
  macaroon, with a backend that fails with a generic \<open>ApiError\<close> or with
  \<open>ApiCircuitBreaker\<close>: in both cases the handler raises \<open>AttributeError\<close> on its
  first line. The session is not marked authenticated, no \<open>openid\<close> record is written,
  and the circuit breaker gives no abort with 503.
\<close>

theorem after_login_account_fetch_failure_raises:
  "nickname provider_resp = Some ''jdoe''
   \<and> after_login (sample_env (Inr ''r'') (Inl (ApiError ''timeout'')))
         (anonymous(''macaroon_root'' \<mapsto> JStr ''r'')) provider_resp
       = \<lparr>result = Raised (AttributeError ''session''),
          session_after = anonymous(''macaroon_root'' \<mapsto> JStr ''r''),
          macaroons_requested = 0\<rparr>
   \<and> after_login (sample_env (Inr ''r'') (Inl ApiCircuitBreaker))
         (anonymous(''macaroon_root'' \<mapsto> JStr ''r'')) provider_resp
       = \<lparr>result = Raised (AttributeError ''session''),
          session_after = anonymous(''macaroon_root'' \<mapsto> JStr ''r''),
          macaroons_requested = 0\<rparr>
   \<and> \<not> is_authenticated (anonymous(''macaroon_root'' \<mapsto> JStr ''r''))"
  by (simp add: after_login_raises raised_def provider_resp_def is_authenticated_def
      anonymous_def)

subsection \<open>Logout\<close>

text \<open>The quoted text holds only letters, digits, \<open>_.-~\<close> and \<open>%\<close>.\<close>

lemma hex_digits_safe: "\<forall>n\<in>set [0..<16]. hex_digit n \<in> always_safe"
  by code_simp

lemma hex_digit_safe: "n < 16 \<Longrightarrow> hex_digit n \<in> always_safe"
  using hex_digits_safe by simp

lemma quote_char_escaped: "set (quote_char c) \<subseteq> insert CHR ''%'' always_safe"
proof -
  have "(of_char c :: nat) < 256"
    by (metis of_char_mod_256 mod_less_divisor zero_less_numeral)
  then have "(of_char c :: nat) div 16 < 16"
    by arith
  then show ?thesis
    by (simp add: quote_char_def hex_digit_safe)
qed

lemma quote_escaped: "set (quote s) \<subseteq> insert CHR ''%'' always_safe"
  using quote_char_escaped by (auto simp add: quote_def)

text \<open>
  The logout view ends at its first line, whatever the session and the request are: the
  query is read from \<open>login.request\<close>, which raises.
\<close>

lemma logout_always_raises:
  "logout env session request = raised (AttributeError ''request'') session 0"
  by (simp add: logout_def login_attr_missing)

text \<open>
  C8. On the established session the logout endpoint raises \<open>AttributeError\<close>, with
  \<open>no_redirect=true\<close> and without it: there is no redirect to \<open>/\<close> or to the
  provider's logout page, and the authenticated session keeps its fields.
\<close>

theorem logout_raises:
  "is_authenticated established
   \<and> logout (sample_env (Inr ''r'') (Inr garbled_500)) established
         (site_request (Some ''true''))
       = \<lparr>result = Raised (AttributeError ''request''), session_after = established,
          macaroons_requested = 0\<rparr>
   \<and> logout (sample_env (Inr ''r'') (Inr garbled_500)) established (site_request None)
       = \<lparr>result = Raised (AttributeError ''request''), session_after = established,
          macaroons_requested = 0\<rparr>"
  by (simp add: logout_always_raises raised_def is_authenticated_established)

subsection \<open>The invariant of the macaroon pair\<close>

text \<open>
  No transition writes the session: the entry point returns before its one assignment or
  raises at it, the callback and the logout view raise on their first lines.
\<close>

lemma step_leaves_session: "step session ev = session"
  by (cases ev) (simp_all add: login_handler_leaves_session after_login_raises
      logout_always_raises raised_def)

lemma run_leaves_session: "run session evs = session"
  by (induction evs arbitrary: session) (simp_all add: step_leaves_session)

text \<open>
  C2. Take any session in which \<open>macaroon_discharge\<close> is set only if \<open>macaroon_root\<close>
  is, and any sequence of login entries, provider callbacks and logouts. After every
  number of transitions of the sequence \<open>macaroon_discharge\<close> is as it was before the
  first, so no transition sets it, and it is set only if \<open>macaroon_root\<close> is.
\<close>

theorem discharge_only_with_root_preserved:
  assumes "discharge_only_with_root session"
  shows "discharge_only_with_root (run session (take n evs))
         \<and> run session (take n evs) ''macaroon_discharge'' = session ''macaroon_discharge''"
  using assms by (simp add: run_leaves_session)

theorem discharge_only_with_root_preserved_witness:
  "discharge_only_with_root credentials
   \<and> discharge_only_with_root
       (run credentials
          [ProviderCallback (sample_env (Inr ''r'') (Inl (ApiError ''timeout''))) provider_resp,
           LoginEntry (sample_env (Inr ''r'') (Inr garbled_500)),
           LogoutRequest (sample_env (Inr ''r'') (Inr garbled_500)) (site_request None)])
   \<and> run credentials
        [ProviderCallback (sample_env (Inr ''r'') (Inl (ApiError ''timeout''))) provider_resp,
         LoginEntry (sample_env (Inr ''r'') (Inr garbled_500)),
         LogoutRequest (sample_env (Inr ''r'') (Inr garbled_500)) (site_request None)]
        ''macaroon_discharge'' = Some (JStr ''d'')"
proof -
  have i: "discharge_only_with_root credentials"
    by (simp add: discharge_only_with_root_def credentials_def)
  from i discharge_only_with_root_preserved [OF i, of 3
      "[ProviderCallback (sample_env (Inr ''r'') (Inl (ApiError ''timeout''))) provider_resp,
        LoginEntry (sample_env (Inr ''r'') (Inr garbled_500)),
        LogoutRequest (sample_env (Inr ''r'') (Inr garbled_500)) (site_request None)]"]
  show ?thesis
    by (simp add: credentials_def)
qed


end
